theory Spec2Isabelle
  imports Main "HOL-Library.Sublist"
begin

section \<open>A wrapper around the ipset command line utility\<close>

text \<open>
  The program is one Go file, \<^verbatim>\<open>ipset.go\<close>. A handle holds the path of the
  \<^verbatim>\<open>ipset\<close> binary; every method builds an argument vector, runs the binary
  through \<^verbatim>\<open>run\<close> and hands back the error; \<^verbatim>\<open>List\<close> also parses the captured
  standard output. Go strings are byte sequences, so they are \<^typ>\<open>string\<close> here; a nil
  slice and an empty slice are both the empty list.
\<close>

subsection \<open>Data\<close>

text \<open>The struct \<^verbatim>\<open>IPSet\<close>.\<close>

record IPSet =
  Path :: string
  Options :: "string list"

text \<open>
  The two fields of \<^verbatim>\<open>exec.Cmd\<close> that \<^verbatim>\<open>run\<close> sets besides the buffers. The
  buffers \<^verbatim>\<open>Stdout\<close> and \<^verbatim>\<open>Stderr\<close> are passed to \<open>Cmd_Run\<close> by their contents.
\<close>

record Cmd =
  cmdPath :: string
  cmdArgs :: "string list"

text \<open>
  Go's \<^verbatim>\<open>error\<close> values that occur: \<open>errorString text\<close> is what
  \<^verbatim>\<open>errors.New(text)\<close> builds, and its message (the method \<^verbatim>\<open>Error()\<close>) is
  \<open>text\<close>; \<open>LookPathError\<close> is the error of \<^verbatim>\<open>exec.LookPath\<close>; \<open>ExitError\<close> and
  \<open>StartError\<close> are the errors of \<^verbatim>\<open>cmd.Run()\<close> for a process that ended
  unsuccessfully and for one that could not be started.
\<close>

datatype error =
    errorString string
  | LookPathError string
  | ExitError int
  | StartError string

text \<open>
  What the operating system does with a command: either the process cannot be started
  (with some detail), or it runs, writes to its standard output and standard error, and
  ends with an exit status. The system is a parameter of every operation; an operation
  asks it once, so an answer that depends on the command alone is as general as any.
\<close>

datatype outcome =
    NotStarted string
  | Exited int string string

type_synonym system = "Cmd \<Rightarrow> outcome"

text \<open>
  \<^verbatim>\<open>cmd.Run()\<close> of the package \<^verbatim>\<open>os/exec\<close>, on a command whose \<^verbatim>\<open>Stdout\<close> and
  \<^verbatim>\<open>Stderr\<close> are byte buffers with the given contents: what the process writes is
  appended to them, the error is nil exactly for a process that ran and ended with
  status zero, and a process that is not started writes nothing. (Copying into a buffer
  in memory does not fail, so \<^verbatim>\<open>Run\<close> has no third kind of error here.)
\<close>

definition Cmd_Run :: "system \<Rightarrow> Cmd \<Rightarrow> string \<Rightarrow> string \<Rightarrow> string \<times> string \<times> error option" where
  "Cmd_Run sys cmd stdout stderr =
     (case sys cmd of
        NotStarted detail \<Rightarrow> (stdout, stderr, Some (StartError detail))
      | Exited code out err \<Rightarrow>
          (stdout @ out, stderr @ err, if code = 0 then None else Some (ExitError code)))"

text \<open>
  The state an operation can touch: the struct its receiver \<^verbatim>\<open>set\<close> points to (a
  handle that \<^verbatim>\<open>New\<close> returned, so the pointer is not nil) and the commands that
  were handed to \<^verbatim>\<open>cmd.Run()\<close> so far, oldest first.
\<close>

record proc =
  handle :: IPSet
  invocations :: "Cmd list"

subsection \<open>Library functions on strings\<close>

text \<open>
  \<^verbatim>\<open>strings.Split(s, "\n")\<close>: the pieces of \<open>s\<close> between the newline bytes, one more
  than there are newlines.
\<close>

fun Split :: "string \<Rightarrow> string list" where
  "Split [] = [[]]"
| "Split (c # s) =
     (if c = CHR 0x0A then [] # Split s
      else (case Split s of [] \<Rightarrow> [[c]] | l # ls \<Rightarrow> (c # l) # ls))"

text \<open>
  \<^verbatim>\<open>strings.TrimSpace\<close> removes the leading and the trailing white space, as Unicode
  defines it, of a UTF-8 string. The white space characters are U+0009 to U+000D, U+0020,
  U+0085, U+00A0, U+1680, U+2000 to U+200A, U+2028, U+2029, U+202F, U+205F and U+3000;
  below are their encodings of one, two and three bytes. A byte that starts no such
  encoding ends the trimming.
\<close>

definition asciiSpace :: "char \<Rightarrow> bool" where
  "asciiSpace c =
     (c = CHR 0x09 \<or> c = CHR 0x0A \<or> c = CHR 0x0B \<or> c = CHR 0x0C \<or> c = CHR 0x0D \<or> c = CHR 0x20)"

definition space2 :: "char \<Rightarrow> char \<Rightarrow> bool" where
  "space2 a b = (a = CHR 0xC2 \<and> (b = CHR 0x85 \<or> b = CHR 0xA0))"

definition space3 :: "char \<Rightarrow> char \<Rightarrow> char \<Rightarrow> bool" where
  "space3 a b c =
     (a = CHR 0xE1 \<and> b = CHR 0x9A \<and> c = CHR 0x80 \<or>
      a = CHR 0xE2 \<and> b = CHR 0x80 \<and>
        ((0x80::nat) \<le> of_char c \<and> of_char c \<le> (0x8A::nat) \<or>
         c = CHR 0xA8 \<or> c = CHR 0xA9 \<or> c = CHR 0xAF) \<or>
      a = CHR 0xE2 \<and> b = CHR 0x81 \<and> c = CHR 0x9F \<or>
      a = CHR 0xE3 \<and> b = CHR 0x80 \<and> c = CHR 0x80)"

fun TrimLeft :: "string \<Rightarrow> string" where
  "TrimLeft [] = []"
| "TrimLeft (a # s) =
     (if asciiSpace a then TrimLeft s
      else (case s of
              [] \<Rightarrow> a # s
            | b # t \<Rightarrow>
                (if space2 a b then TrimLeft t
                 else (case t of
                         [] \<Rightarrow> a # s
                       | c # u \<Rightarrow> (if space3 a b c then TrimLeft u else a # s)))))"

text \<open>
  The same from the other end, on the reversed string: its first byte \<open>c\<close> is the last
  byte of the string, \<open>b\<close> the one before it, \<open>a\<close> the one before that.
\<close>

fun trimReversed :: "string \<Rightarrow> string" where
  "trimReversed [] = []"
| "trimReversed (c # s) =
     (if asciiSpace c then trimReversed s
      else (case s of
              [] \<Rightarrow> c # s
            | b # t \<Rightarrow>
                (if space2 b c then trimReversed t
                 else (case t of
                         [] \<Rightarrow> c # s
                       | a # u \<Rightarrow> (if space3 a b c then trimReversed u else c # s)))))"

definition TrimRight :: "string \<Rightarrow> string" where
  "TrimRight s = rev (trimReversed (rev s))"

definition TrimSpace :: "string \<Rightarrow> string" where
  "TrimSpace s = TrimRight (TrimLeft s)"

text \<open>
  The slice expression \<^verbatim>\<open>xs[lo:]\<close>, which panics when \<open>lo\<close> is beyond the length.
\<close>

datatype panic = SliceBoundsOutOfRange

definition slice_from :: "'a list \<Rightarrow> nat \<Rightarrow> panic + 'a list" where
  "slice_from xs lo = (if lo \<le> length xs then Inr (drop lo xs) else Inl SliceBoundsOutOfRange)"

text \<open>
  \<^verbatim>\<open>filepath.IsAbs\<close> on Unix: a path is absolute when it begins with a slash. The
  program does not call it; it is here to say what \<^verbatim>\<open>exec.LookPath\<close> promises of the
  path it resolves.
\<close>

definition IsAbs :: "string \<Rightarrow> bool" where
  "IsAbs path = (case path of [] \<Rightarrow> False | c # rest \<Rightarrow> c = CHR ''/'')"

subsection \<open>The program\<close>

text \<open>
  \<^verbatim>\<open>New\<close>. \<^verbatim>\<open>exec.LookPath\<close> is a parameter: it returns a path and an error, and the
  error decides.
\<close>

definition New :: "(string \<Rightarrow> string \<times> error option) \<Rightarrow> IPSet option \<times> error option" where
  "New LookPath =
     (case LookPath ''ipset'' of
        (binPath, Some err) \<Rightarrow> (None, Some err)
      | (binPath, None) \<Rightarrow> (Some \<lparr>Path = binPath, Options = []\<rparr>, None))"

text \<open>
  \<^verbatim>\<open>run\<close>: two fresh buffers, the command with the path as its first argument, and
  \<^verbatim>\<open>cmd.Run()\<close>. It returns the standard output buffer and, when \<^verbatim>\<open>cmd.Run()\<close>
  returned an error, a new error made of the contents of the standard error buffer.
\<close>

definition run :: "system \<Rightarrow> string list \<Rightarrow> proc \<Rightarrow> (string \<times> error option) \<times> proc" where
  "run sys args st =
     (let cmd = \<lparr>cmdPath = Path (handle st), cmdArgs = [Path (handle st)] @ args\<rparr> in
      case Cmd_Run sys cmd [] [] of
        (stdout, stderr, Some err) \<Rightarrow>
          ((stdout, Some (errorString stderr)), st\<lparr>invocations := invocations st @ [cmd]\<rparr>)
      | (stdout, stderr, None) \<Rightarrow>
          ((stdout, None), st\<lparr>invocations := invocations st @ [cmd]\<rparr>))"

definition Create :: "system \<Rightarrow> string \<Rightarrow> string \<Rightarrow> string list \<Rightarrow> proc \<Rightarrow> error option \<times> proc" where
  "Create sys name typ options st =
     (case run sys ([''create'', name, typ] @ options) st of ((out, err), st') \<Rightarrow> (err, st'))"

definition Add :: "system \<Rightarrow> string \<Rightarrow> string \<Rightarrow> string list \<Rightarrow> proc \<Rightarrow> error option \<times> proc" where
  "Add sys name entry options st =
     (case run sys ([''add'', name, entry] @ options) st of ((out, err), st') \<Rightarrow> (err, st'))"

definition AddUnique :: "system \<Rightarrow> string \<Rightarrow> string \<Rightarrow> string list \<Rightarrow> proc \<Rightarrow> error option \<times> proc" where
  "AddUnique sys name entry options st =
     (case run sys ([''add'', name, entry, ''-exist''] @ options) st of
        ((out, err), st') \<Rightarrow> (err, st'))"

definition Delete :: "system \<Rightarrow> string \<Rightarrow> string \<Rightarrow> string list \<Rightarrow> proc \<Rightarrow> error option \<times> proc" where
  "Delete sys name entry options st =
     (case run sys ([''del'', name, entry] @ options) st of ((out, err), st') \<Rightarrow> (err, st'))"

definition Test :: "system \<Rightarrow> string \<Rightarrow> string \<Rightarrow> string list \<Rightarrow> proc \<Rightarrow> error option \<times> proc" where
  "Test sys name entry options st =
     (case run sys ([''test'', name, entry] @ options) st of ((out, err), st') \<Rightarrow> (err, st'))"

definition Destroy :: "system \<Rightarrow> string \<Rightarrow> proc \<Rightarrow> error option \<times> proc" where
  "Destroy sys name st =
     (case run sys [''destroy'', name] st of ((out, err), st') \<Rightarrow> (err, st'))"

definition Save :: "system \<Rightarrow> string \<Rightarrow> string \<Rightarrow> proc \<Rightarrow> error option \<times> proc" where
  "Save sys name filename st =
     (case run sys [''save'', name, ''-file'', filename] st of ((out, err), st') \<Rightarrow> (err, st'))"

definition Restore :: "system \<Rightarrow> string \<Rightarrow> proc \<Rightarrow> error option \<times> proc" where
  "Restore sys filename st =
     (case run sys [''restore'', ''-file'', filename] st of ((out, err), st') \<Rightarrow> (err, st'))"

definition Flush :: "system \<Rightarrow> string \<Rightarrow> proc \<Rightarrow> error option \<times> proc" where
  "Flush sys name st =
     (case run sys [''flush'', name] st of ((out, err), st') \<Rightarrow> (err, st'))"

definition Rename :: "system \<Rightarrow> string \<Rightarrow> string \<Rightarrow> proc \<Rightarrow> error option \<times> proc" where
  "Rename sys from to st =
     (case run sys [''rename'', from, to] st of ((out, err), st') \<Rightarrow> (err, st'))"

definition Swap :: "system \<Rightarrow> string \<Rightarrow> string \<Rightarrow> proc \<Rightarrow> error option \<times> proc" where
  "Swap sys from to st =
     (case run sys [''swap'', from, to] st of ((out, err), st') \<Rightarrow> (err, st'))"

text \<open>
  The first loop of \<^verbatim>\<open>List\<close>: \<open>i\<close> is the index of the first of the lines still to
  visit, \<open>start\<close> the variable, which the loop sets at the first line that is
  \<^verbatim>\<open>Members:\<close> once trimmed, and then leaves.
\<close>

fun scan :: "string list \<Rightarrow> nat \<Rightarrow> nat \<Rightarrow> nat" where
  "scan [] i start = start"
| "scan (line # rest) i start =
     (if TrimSpace line = ''Members:'' then i else scan rest (Suc i) start)"

text \<open>The second loop: the lines that are not empty once trimmed are appended as they are.\<close>

fun collect :: "string list \<Rightarrow> string list \<Rightarrow> string list" where
  "collect [] members = members"
| "collect (l # ls) members =
     (if TrimSpace l = [] then collect ls members else collect ls (members @ [l]))"

definition List :: "system \<Rightarrow> string \<Rightarrow> proc \<Rightarrow> (panic + string list \<times> error option) \<times> proc" where
  "List sys name st =
     (case run sys [''list'', name] st of
        ((out, err), st') \<Rightarrow>
          (let lines = Split out; start = scan lines 0 0 in
           if length lines \<le> start + 1 then (Inr ([], err), st')
           else (case slice_from lines (start + 1) of
                   Inl p \<Rightarrow> (Inl p, st')
                 | Inr ls \<Rightarrow> (Inr (collect ls [], err), st'))))"

subsection \<open>Every operation at once\<close>

text \<open>
  The eleven methods that return the error alone, as one type, so that a statement can
  speak of all of them; \<open>invoke\<close> only dispatches. \<^verbatim>\<open>List\<close>, which returns the members
  as well, is stated beside them.
\<close>

datatype call =
    CreateCall string string "string list"
  | AddCall string string "string list"
  | AddUniqueCall string string "string list"
  | DeleteCall string string "string list"
  | TestCall string string "string list"
  | DestroyCall string
  | SaveCall string string
  | RestoreCall string
  | FlushCall string
  | RenameCall string string
  | SwapCall string string

fun invoke :: "system \<Rightarrow> call \<Rightarrow> proc \<Rightarrow> error option \<times> proc" where
  "invoke sys (CreateCall name typ options) st = Create sys name typ options st"
| "invoke sys (AddCall name entry options) st = Add sys name entry options st"
| "invoke sys (AddUniqueCall name entry options) st = AddUnique sys name entry options st"
| "invoke sys (DeleteCall name entry options) st = Delete sys name entry options st"
| "invoke sys (TestCall name entry options) st = Test sys name entry options st"
| "invoke sys (DestroyCall name) st = Destroy sys name st"
| "invoke sys (SaveCall name filename) st = Save sys name filename st"
| "invoke sys (RestoreCall filename) st = Restore sys filename st"
| "invoke sys (FlushCall name) st = Flush sys name st"
| "invoke sys (RenameCall from to) st = Rename sys from to st"
| "invoke sys (SwapCall from to) st = Swap sys from to st"

text \<open>The command \<^verbatim>\<open>run\<close> builds from the handle and its arguments.\<close>

definition command :: "proc \<Rightarrow> string list \<Rightarrow> Cmd" where
  "command st args = \<lparr>cmdPath = Path (handle st), cmdArgs = Path (handle st) # args\<rparr>"

text \<open>
  A string made of white space characters only (the empty string is one): the strings
  a reader would call blank, said without \<open>TrimSpace\<close>.
\<close>

fun whitespace_only :: "string \<Rightarrow> bool" where
  "whitespace_only [] = True"
| "whitespace_only (a # s) =
     (if asciiSpace a then whitespace_only s
      else (case s of
              [] \<Rightarrow> False
            | b # t \<Rightarrow>
                (if space2 a b then whitespace_only t
                 else (case t of
                         [] \<Rightarrow> False
                       | c # u \<Rightarrow> (if space3 a b c then whitespace_only u else False)))))"

text \<open>
  For the examples: the state right after \<^verbatim>\<open>New\<close> found the binary at
  \<^verbatim>\<open>/usr/sbin/ipset\<close>, before any command.
\<close>

abbreviation fresh :: proc where
  "fresh \<equiv> \<lparr>handle = \<lparr>Path = ''/usr/sbin/ipset'', Options = []\<rparr>, invocations = []\<rparr>"

section \<open>Properties\<close>

subsection \<open>What \<open>run\<close> returns\<close>

lemma run_eq:
  "run sys args st =
     ((case sys (command st args) of
         NotStarted detail \<Rightarrow> ([], Some (errorString []))
       | Exited code out err \<Rightarrow> (out, if code = 0 then None else Some (errorString err))),
      st\<lparr>invocations := invocations st @ [command st args]\<rparr>)"
  by (simp add: run_def Cmd_Run_def command_def split: outcome.split)

lemma run_error:
  "snd (fst (run sys args st)) =
     (case sys (last (invocations (snd (run sys args st)))) of
        NotStarted detail \<Rightarrow> Some (errorString [])
      | Exited code out err \<Rightarrow> if code = 0 then None else Some (errorString err))"
  by (simp add: run_eq split: outcome.split)

lemmas op_defs = Create_def Add_def AddUnique_def Delete_def Test_def Destroy_def Save_def
  Restore_def Flush_def Rename_def Swap_def

lemma invoke_run:
  "\<exists>args. invoke sys c st = (snd (fst (run sys args st)), snd (run sys args st))"
  by (cases c; simp add: op_defs case_prod_beta; blast)

lemma List_run:
  "\<exists>members. List sys name st =
     (Inr (members, snd (fst (run sys [''list'', name] st))), snd (run sys [''list'', name] st))"
  by (simp add: List_def Let_def slice_from_def case_prod_beta)

subsection \<open>Lines, the marker and the members\<close>

lemma Split_not_Nil: "Split s \<noteq> []"
  by (induction s) (auto split: list.split)

lemma Split_newline: "Split (a @ CHR 0x0A # b) = Split a @ Split b"
proof (induction a)
  case Nil
  show ?case by simp
next
  case (Cons c a)
  obtain l ls where "Split a = l # ls"
    using Split_not_Nil [of a] by (cases "Split a") auto
  with Cons show ?case by simp
qed

lemma Split_line: "CHR 0x0A \<notin> set m \<Longrightarrow> Split m = [m]"
  by (induction m) auto

lemma collect_filter: "collect ls members = members @ filter (\<lambda>l. TrimSpace l \<noteq> []) ls"
  by (induction ls arbitrary: members) auto

lemma scan_no_marker:
  "\<forall>l\<in>set ls. TrimSpace l \<noteq> ''Members:'' \<Longrightarrow> scan ls i start = start"
  by (induction ls arbitrary: i) auto

lemma scan_first_marker:
  "\<forall>l\<in>set hdr. TrimSpace l \<noteq> ''Members:'' \<Longrightarrow> TrimSpace m = ''Members:'' \<Longrightarrow>
   scan (hdr @ m # rest) i start = i + length hdr"
  by (induction hdr arbitrary: i) auto

lemma TrimLeft_whitespace: "whitespace_only s \<Longrightarrow> TrimLeft s = []"
proof (induction s rule: whitespace_only.induct)
  case 1
  show ?case by simp
next
  case (2 a s)
  then show ?case
    by (cases s; cases "tl s"; simp split: if_split_asm)
qed

lemma TrimSpace_whitespace: "whitespace_only s \<Longrightarrow> TrimSpace s = []"
  by (simp add: TrimSpace_def TrimRight_def TrimLeft_whitespace)

lemmas trim_defs = TrimSpace_def TrimRight_def asciiSpace_def space2_def space3_def

lemma List_eq:
  "fst (run sys [''list'', name] st) = (out, err) \<Longrightarrow>
   fst (List sys name st) =
     Inr (filter (\<lambda>l. TrimSpace l \<noteq> []) (drop (Suc (scan (Split out) 0 0)) (Split out)), err)"
  by (cases "run sys [''list'', name] st")
     (auto simp add: List_def Let_def slice_from_def collect_filter)

text \<open>
  The lines of an output in which the line \<open>m\<close> comes after a header \<open>hdr\<close> of whole
  lines, none of them a marker.
\<close>

lemma marker_lines:
  assumes "hdr = [] \<or> last hdr = CHR 0x0A"
    and "\<forall>l\<in>set (Split hdr). TrimSpace l \<noteq> ''Members:''"
    and "CHR 0x0A \<notin> set m"
  shows "\<exists>pre. Split (hdr @ m @ CHR 0x0A # text) = pre @ m # Split text \<and>
               Split (hdr @ m) = pre @ [m] \<and>
               (\<forall>l\<in>set pre. TrimSpace l \<noteq> ''Members:'')"
proof (cases "hdr = []")
  case True
  have "Split (m @ CHR 0x0A # text) = [] @ m # Split text"
    using assms(3) by (simp add: Split_newline Split_line)
  moreover have "Split m = [] @ [m]"
    using assms(3) by (simp add: Split_line)
  ultimately show ?thesis using True by auto
next
  case False
  with assms(1) have hdr: "hdr = butlast hdr @ [CHR 0x0A]"
    by (metis append_butlast_last_id)
  define h where "h = butlast hdr"
  have hdr': "hdr = h @ CHR 0x0A # []" using hdr h_def by simp
  have "Split hdr = Split h @ [[]]"
    by (subst hdr') (simp only: Split_newline Split.simps)
  with assms(2) have nomark: "\<forall>l\<in>set (Split h). TrimSpace l \<noteq> ''Members:''" by simp
  have "hdr @ m @ CHR 0x0A # text = h @ CHR 0x0A # (m @ CHR 0x0A # text)"
    by (subst hdr') simp
  then have a: "Split (hdr @ m @ CHR 0x0A # text) = Split h @ m # Split text"
    using assms(3) by (simp add: Split_newline Split_line)
  have "hdr @ m = h @ CHR 0x0A # m" by (subst hdr') simp
  then have b: "Split (hdr @ m) = Split h @ [m]"
    using assms(3) by (simp add: Split_newline Split_line)
  from a b nomark show ?thesis by blast
qed

lemma members_kept:
  "filter (\<lambda>l. TrimSpace l \<noteq> []) [''10.0.0.1'', [], ''10.0.0.2'', []] = [''10.0.0.1'', ''10.0.0.2'']"
  by (simp add: trim_defs)

subsection \<open>Argument vectors\<close>

text \<open>
  Claim C1. Each operation hands exactly one command to the system, whose path is the
  handle's path and whose arguments are that path followed by the vector of the table:
  \<^verbatim>\<open>create name type opts...\<close>, \<^verbatim>\<open>add name entry opts...\<close>,
  \<^verbatim>\<open>add name entry -exist opts...\<close>, \<^verbatim>\<open>del name entry opts...\<close>,
  \<^verbatim>\<open>test name entry opts...\<close>, \<^verbatim>\<open>destroy name\<close>, \<^verbatim>\<open>save name -file filename\<close>,
  \<^verbatim>\<open>restore -file filename\<close>, \<^verbatim>\<open>flush name\<close>, \<^verbatim>\<open>rename from to\<close>,
  \<^verbatim>\<open>swap from to\<close> and \<^verbatim>\<open>list name\<close>, the caller's options unchanged and in their
  order, for all values of the arguments.
\<close>

theorem argument_vectors:
  "invocations (snd (Create sys name typ options st)) =
     invocations st @ [\<lparr>cmdPath = Path (handle st),
       cmdArgs = [Path (handle st)] @ [''create'', name, typ] @ options\<rparr>] \<and>
   invocations (snd (Add sys name entry options st)) =
     invocations st @ [\<lparr>cmdPath = Path (handle st),
       cmdArgs = [Path (handle st)] @ [''add'', name, entry] @ options\<rparr>] \<and>
   invocations (snd (AddUnique sys name entry options st)) =
     invocations st @ [\<lparr>cmdPath = Path (handle st),
       cmdArgs = [Path (handle st)] @ [''add'', name, entry, ''-exist''] @ options\<rparr>] \<and>
   invocations (snd (Delete sys name entry options st)) =
     invocations st @ [\<lparr>cmdPath = Path (handle st),
       cmdArgs = [Path (handle st)] @ [''del'', name, entry] @ options\<rparr>] \<and>
   invocations (snd (Test sys name entry options st)) =
     invocations st @ [\<lparr>cmdPath = Path (handle st),
       cmdArgs = [Path (handle st)] @ [''test'', name, entry] @ options\<rparr>] \<and>
   invocations (snd (Destroy sys name st)) =
     invocations st @ [\<lparr>cmdPath = Path (handle st),
       cmdArgs = [Path (handle st)] @ [''destroy'', name]\<rparr>] \<and>
   invocations (snd (Save sys name filename st)) =
     invocations st @ [\<lparr>cmdPath = Path (handle st),
       cmdArgs = [Path (handle st)] @ [''save'', name, ''-file'', filename]\<rparr>] \<and>
   invocations (snd (Restore sys filename st)) =
     invocations st @ [\<lparr>cmdPath = Path (handle st),
       cmdArgs = [Path (handle st)] @ [''restore'', ''-file'', filename]\<rparr>] \<and>
   invocations (snd (Flush sys name st)) =
     invocations st @ [\<lparr>cmdPath = Path (handle st),
       cmdArgs = [Path (handle st)] @ [''flush'', name]\<rparr>] \<and>
   invocations (snd (Rename sys from to st)) =
     invocations st @ [\<lparr>cmdPath = Path (handle st),
       cmdArgs = [Path (handle st)] @ [''rename'', from, to]\<rparr>] \<and>
   invocations (snd (Swap sys from to st)) =
     invocations st @ [\<lparr>cmdPath = Path (handle st),
       cmdArgs = [Path (handle st)] @ [''swap'', from, to]\<rparr>] \<and>
   invocations (snd (List sys name st)) =
     invocations st @ [\<lparr>cmdPath = Path (handle st),
       cmdArgs = [Path (handle st)] @ [''list'', name]\<rparr>]"
proof -
  obtain members where "List sys name st =
      (Inr (members, snd (fst (run sys [''list'', name] st))), snd (run sys [''list'', name] st))"
    using List_run by blast
  then have "invocations (snd (List sys name st)) =
      invocations st @ [\<lparr>cmdPath = Path (handle st),
        cmdArgs = [Path (handle st)] @ [''list'', name]\<rparr>]"
    by (simp add: run_eq command_def)
  then show ?thesis
    by (simp add: op_defs run_eq command_def case_prod_beta)
qed

text \<open>The create call of the source's own comment, with its timeout option.\<close>

theorem argument_vectors_witness:
  "invocations (snd (Create (\<lambda>cmd. Exited 0 [] []) ''test'' ''hash:ip'' [''timeout'', ''300''] fresh)) =
     [\<lparr>cmdPath = ''/usr/sbin/ipset'',
       cmdArgs = [''/usr/sbin/ipset'', ''create'', ''test'', ''hash:ip'', ''timeout'', ''300'']\<rparr>]"
  using argument_vectors [of "\<lambda>cmd. Exited 0 [] []" "''test''" "''hash:ip''" "[''timeout'', ''300'']" "fresh"]
  by simp

subsection \<open>Errors\<close>

text \<open>
  Claim C2. Every operation returns an error exactly when the process did not start or
  ended with a status other than zero. A process that ends with status zero gives no
  error, whatever it wrote to its standard output; a process that fails gives the error
  whose message is the captured standard error text, all of it and nothing else (the
  empty text for a process that did not start). The command is the one the operation
  handed to the system, the last of the invocations.
\<close>

theorem error_iff_failure:
  "(fst (invoke sys c st) \<noteq> None) =
     (case sys (last (invocations (snd (invoke sys c st)))) of
        NotStarted detail \<Rightarrow> True
      | Exited code out err \<Rightarrow> code \<noteq> 0) \<and>
   fst (invoke sys c st) =
     (case sys (last (invocations (snd (invoke sys c st)))) of
        NotStarted detail \<Rightarrow> Some (errorString [])
      | Exited code out err \<Rightarrow> if code = 0 then None else Some (errorString err)) \<and>
   (\<exists>members. fst (List sys name st) =
      Inr (members,
        case sys (last (invocations (snd (List sys name st)))) of
          NotStarted detail \<Rightarrow> Some (errorString [])
        | Exited code out err \<Rightarrow> if code = 0 then None else Some (errorString err)))"
proof -
  obtain args where inv: "invoke sys c st = (snd (fst (run sys args st)), snd (run sys args st))"
    using invoke_run by blast
  obtain ms where lst: "List sys name st =
      (Inr (ms, snd (fst (run sys [''list'', name] st))), snd (run sys [''list'', name] st))"
    using List_run by blast
  show ?thesis
    unfolding inv lst fst_conv snd_conv
    by (simp add: run_error [of sys] split: outcome.split)
qed

theorem error_iff_failure_witness:
  "fst (invoke (\<lambda>cmd. Exited 1 ''some output'' ''ipset v7.x: Set cannot be destroyed: in use'')
          (DestroyCall ''blocklist'') fresh) =
     Some (errorString ''ipset v7.x: Set cannot be destroyed: in use'') \<and>
   fst (invoke (\<lambda>cmd. Exited 0 ''some output'' ''a warning'') (DestroyCall ''blocklist'') fresh) = None"
  using error_iff_failure [of "\<lambda>cmd. Exited 1 ''some output'' ''ipset v7.x: Set cannot be destroyed: in use''"
      "DestroyCall ''blocklist''" "fresh" "''blocklist''"]
    error_iff_failure [of "\<lambda>cmd. Exited 0 ''some output'' ''a warning''"
      "DestroyCall ''blocklist''" "fresh" "''blocklist''"]
  by simp

subsection \<open>The place of \<^verbatim>\<open>-exist\<close>\<close>

text \<open>
  Claim C3. In the arguments \<^verbatim>\<open>AddUnique\<close> hands to \<^verbatim>\<open>run\<close> (the command's
  arguments after the path), \<^verbatim>\<open>-exist\<close> stands right after \<^verbatim>\<open>add\<close>, the name and
  the entry, and the caller's options are everything after it, whatever the name, the
  entry (empty strings too) and the options are.
\<close>

theorem AddUnique_exist_position:
  "take 3 (tl (cmdArgs (last (invocations (snd (AddUnique sys name entry options st)))))) =
     [''add'', name, entry] \<and>
   tl (cmdArgs (last (invocations (snd (AddUnique sys name entry options st))))) ! 3 =
     ''-exist'' \<and>
   drop 4 (tl (cmdArgs (last (invocations (snd (AddUnique sys name entry options st)))))) =
     options"
  by (simp add: AddUnique_def run_eq command_def case_prod_beta)

theorem AddUnique_exist_position_witness:
  "tl (cmdArgs (last (invocations (snd (AddUnique (\<lambda>cmd. Exited 0 [] []) [] [] [''timeout'', ''300''] fresh))))) ! 3 =
     ''-exist'' \<and>
   drop 4 (tl (cmdArgs (last (invocations (snd (AddUnique (\<lambda>cmd. Exited 0 [] []) [] [] [''timeout'', ''300''] fresh)))))) =
     [''timeout'', ''300'']"
  using AddUnique_exist_position [of "\<lambda>cmd. Exited 0 [] []" "[]" "[]" "[''timeout'', ''300'']" "fresh"]
  by simp

subsection \<open>Listing\<close>

text \<open>
  Claim C4, amended. When the first line of the captured standard output that is
  \<^verbatim>\<open>Members:\<close> once trimmed is followed by exactly the text
  \<^verbatim>\<open>"10.0.0.1\n\n10.0.0.2\n"\<close>, \<^verbatim>\<open>List\<close> returns the two addresses in their
  order, without the blank line, together with the error of the run. The line is a whole
  line after a header of whole lines, and being the first is the hypothesis that no line
  of the header is \<^verbatim>\<open>Members:\<close> once trimmed: the scan stops at the first marker.
\<close>

theorem List_example_members:
  assumes "fst (run sys [''list'', name] st) =
             (hdr @ m @ ''\<newline>10.0.0.1\<newline>\<newline>10.0.0.2\<newline>'', err)"
    and "hdr = [] \<or> last hdr = CHR 0x0A"
    and "\<forall>l\<in>set (Split hdr). TrimSpace l \<noteq> ''Members:''"
    and "CHR 0x0A \<notin> set m"
    and "TrimSpace m = ''Members:''"
  shows "fst (List sys name st) = Inr ([''10.0.0.1'', ''10.0.0.2''], err)"
proof -
  define out where "out = hdr @ m @ ''\<newline>10.0.0.1\<newline>\<newline>10.0.0.2\<newline>''"
  define rest where "rest = [''10.0.0.1'', [], ''10.0.0.2'', []]"
  obtain pre where
    lines: "Split (hdr @ m @ CHR 0x0A # ''10.0.0.1\<newline>\<newline>10.0.0.2\<newline>'') =
              pre @ m # Split ''10.0.0.1\<newline>\<newline>10.0.0.2\<newline>''"
    and pre: "\<forall>l\<in>set pre. TrimSpace l \<noteq> ''Members:''"
    using marker_lines [OF assms(2,3,4)] by blast
  have split: "Split out = pre @ m # rest"
    using lines by (simp add: out_def rest_def)
  have start: "scan (pre @ m # rest) 0 0 = length pre"
    using scan_first_marker [OF pre assms(5)] by simp
  have after: "drop (Suc (length pre)) (pre @ m # rest) = rest"
    by simp
  have "fst (List sys name st) =
      Inr (filter (\<lambda>l. TrimSpace l \<noteq> []) (drop (Suc (scan (Split out) 0 0)) (Split out)), err)"
    using assms(1) unfolding out_def by (rule List_eq)
  also have "\<dots> = Inr (filter (\<lambda>l. TrimSpace l \<noteq> []) rest, err)"
    by (simp only: split start after)
  also have "\<dots> = Inr ([''10.0.0.1'', ''10.0.0.2''], err)"
    by (simp only: rest_def members_kept)
  finally show ?thesis .
qed

theorem List_example_members_witness:
  "fst (run (\<lambda>cmd. Exited 0 (''Name: blocklist\<newline>Type: hash:ip\<newline>'' @ '' Members:'' @
          ''\<newline>10.0.0.1\<newline>\<newline>10.0.0.2\<newline>'') [])
        [''list'', ''blocklist''] fresh) =
     (''Name: blocklist\<newline>Type: hash:ip\<newline>'' @ '' Members:'' @
        ''\<newline>10.0.0.1\<newline>\<newline>10.0.0.2\<newline>'', None) \<and>
   last ''Name: blocklist\<newline>Type: hash:ip\<newline>'' = CHR 0x0A \<and>
   list_all (\<lambda>l. TrimSpace l \<noteq> ''Members:'')
     (Split ''Name: blocklist\<newline>Type: hash:ip\<newline>'') \<and>
   CHR 0x0A \<notin> set '' Members:'' \<and>
   TrimSpace '' Members:'' = ''Members:'' \<and>
   fst (List (\<lambda>cmd. Exited 0 (''Name: blocklist\<newline>Type: hash:ip\<newline>'' @ '' Members:'' @
          ''\<newline>10.0.0.1\<newline>\<newline>10.0.0.2\<newline>'') [])
        ''blocklist'' fresh) =
     Inr ([''10.0.0.1'', ''10.0.0.2''], None)"
proof -
  let ?hdr = "''Name: blocklist\<newline>Type: hash:ip\<newline>''"
  let ?sys = "\<lambda>cmd::Cmd. Exited 0 (?hdr @ '' Members:'' @
          ''\<newline>10.0.0.1\<newline>\<newline>10.0.0.2\<newline>'') []"
  have h1: "fst (run ?sys [''list'', ''blocklist''] fresh) =
     (?hdr @ '' Members:'' @ ''\<newline>10.0.0.1\<newline>\<newline>10.0.0.2\<newline>'', None)"
    by (simp add: run_eq)
  have h2: "?hdr = [] \<or> last ?hdr = CHR 0x0A" by simp
  have h3: "\<forall>l\<in>set (Split ?hdr). TrimSpace l \<noteq> ''Members:''"
    by (simp add: trim_defs)
  have h4: "CHR 0x0A \<notin> set '' Members:''" by simp
  have h5: "TrimSpace '' Members:'' = ''Members:''"
    by (simp add: trim_defs)
  have "fst (List ?sys ''blocklist'' fresh) = Inr ([''10.0.0.1'', ''10.0.0.2''], None)"
    by (rule List_example_members [OF h1 h2 h3 h4 h5])
  with h1 h2 h3 h4 h5 show ?thesis
    by (simp add: list_all_iff)
qed

text \<open>
  Claim C4 as it was stated, for any line that is \<^verbatim>\<open>Members:\<close> once trimmed, does
  not hold. In the output below the third line is such a line and the text follows it,
  but the first line is a marker too: the scan stops there, and the members are
  everything after the first line that is not blank, the later \<^verbatim>\<open>Members:\<close> line
  among them.
\<close>

theorem List_later_marker_counterexample:
  "fst (run (\<lambda>cmd. Exited 0 (''Members:\<newline>x\<newline>'' @ ''Members:'' @
          ''\<newline>10.0.0.1\<newline>\<newline>10.0.0.2\<newline>'') [])
        [''list'', ''s''] fresh) =
     (''Members:\<newline>x\<newline>'' @ ''Members:'' @
        ''\<newline>10.0.0.1\<newline>\<newline>10.0.0.2\<newline>'', None) \<and>
   last ''Members:\<newline>x\<newline>'' = CHR 0x0A \<and>
   CHR 0x0A \<notin> set ''Members:'' \<and>
   TrimSpace ''Members:'' = ''Members:'' \<and>
   fst (List (\<lambda>cmd. Exited 0 (''Members:\<newline>x\<newline>'' @ ''Members:'' @
          ''\<newline>10.0.0.1\<newline>\<newline>10.0.0.2\<newline>'') [])
        ''s'' fresh) =
     Inr ([''x'', ''Members:'', ''10.0.0.1'', ''10.0.0.2''], None) \<and>
   fst (List (\<lambda>cmd. Exited 0 (''Members:\<newline>x\<newline>'' @ ''Members:'' @
          ''\<newline>10.0.0.1\<newline>\<newline>10.0.0.2\<newline>'') [])
        ''s'' fresh) \<noteq>
     Inr ([''10.0.0.1'', ''10.0.0.2''], None)"
proof -
  let ?out = "''Members:\<newline>x\<newline>'' @ ''Members:'' @
        ''\<newline>10.0.0.1\<newline>\<newline>10.0.0.2\<newline>''"
  let ?sys = "\<lambda>cmd::Cmd. Exited 0 ?out []"
  have ran: "fst (run ?sys [''list'', ''s''] fresh) = (?out, None)"
    by (simp add: run_eq)
  have marker: "TrimSpace ''Members:'' = ''Members:''"
    by (simp add: trim_defs)
  have "fst (List ?sys ''s'' fresh) =
      Inr (filter (\<lambda>l. TrimSpace l \<noteq> []) (drop (Suc (scan (Split ?out) 0 0)) (Split ?out)), None)"
    using ran by (rule List_eq)
  also have "filter (\<lambda>l. TrimSpace l \<noteq> []) (drop (Suc (scan (Split ?out) 0 0)) (Split ?out)) =
      [''x'', ''Members:'', ''10.0.0.1'', ''10.0.0.2'']"
    by (simp add: trim_defs)
  finally have listed: "fst (List ?sys ''s'' fresh) =
      Inr ([''x'', ''Members:'', ''10.0.0.1'', ''10.0.0.2''], None)" .
  then have differs: "fst (List ?sys ''s'' fresh) \<noteq> Inr ([''10.0.0.1'', ''10.0.0.2''], None)"
    by simp
  from ran marker listed differs show ?thesis
    by simp
qed

text \<open>
  Claim C5. When no line of the captured standard output is \<^verbatim>\<open>Members:\<close> once
  trimmed, \<^verbatim>\<open>List\<close> returns (it does not panic): the scan leaves the index at zero,
  and the members are collected from the lines after the first one, so the first line is
  never among the candidates.
\<close>

theorem List_without_marker:
  assumes "fst (run sys [''list'', name] st) = (out, err)"
    and "\<forall>l\<in>set (Split out). TrimSpace l \<noteq> ''Members:''"
  shows "scan (Split out) 0 0 = 0 \<and>
         fst (List sys name st) = Inr (collect (drop 1 (Split out)) [], err)"
proof -
  have start: "scan (Split out) 0 0 = 0"
    using assms(2) by (rule scan_no_marker)
  have "fst (List sys name st) =
      Inr (filter (\<lambda>l. TrimSpace l \<noteq> []) (drop (Suc (scan (Split out) 0 0)) (Split out)), err)"
    using assms(1) by (rule List_eq)
  then show ?thesis
    by (simp add: start collect_filter)
qed

theorem List_without_marker_witness:
  "fst (run (\<lambda>cmd. Exited 0 ''first\<newline>second\<newline> \<newline>third'' []) [''list'', ''s''] fresh) =
     (''first\<newline>second\<newline> \<newline>third'', None) \<and>
   list_all (\<lambda>l. TrimSpace l \<noteq> ''Members:'') (Split ''first\<newline>second\<newline> \<newline>third'') \<and>
   fst (List (\<lambda>cmd. Exited 0 ''first\<newline>second\<newline> \<newline>third'' []) ''s'' fresh) =
     Inr ([''second'', ''third''], None)"
proof -
  let ?out = "''first\<newline>second\<newline> \<newline>third''"
  let ?sys = "\<lambda>cmd::Cmd. Exited 0 ?out []"
  have h1: "fst (run ?sys [''list'', ''s''] fresh) = (?out, None)"
    by (simp add: run_eq)
  have h2: "\<forall>l\<in>set (Split ?out). TrimSpace l \<noteq> ''Members:''"
    by (simp add: trim_defs)
  have "fst (List ?sys ''s'' fresh) = Inr (collect (drop 1 (Split ?out)) [], None)"
    using List_without_marker [OF h1 h2] by (rule conjunct2)
  also have "collect (drop 1 (Split ?out)) [] = [''second'', ''third'']"
    by (simp add: trim_defs)
  finally show ?thesis
    using h1 h2 by (simp only: list_all_iff simp_thms)
qed

text \<open>A run that fails after it printed one member.\<close>

lemma List_partial_example:
  "fst (List (\<lambda>cmd. Exited 1 ''Members:\<newline>10.0.0.1\<newline>'' ''Kernel error'') ''s'' fresh) =
     Inr ([''10.0.0.1''], Some (errorString ''Kernel error''))"
proof -
  have "fst (run (\<lambda>cmd. Exited 1 ''Members:\<newline>10.0.0.1\<newline>'' ''Kernel error'') [''list'', ''s''] fresh) =
      (''Members:\<newline>10.0.0.1\<newline>'', Some (errorString ''Kernel error''))"
    by (simp add: run_eq)
  then have "fst (List (\<lambda>cmd. Exited 1 ''Members:\<newline>10.0.0.1\<newline>'' ''Kernel error'') ''s'' fresh) =
      Inr (filter (\<lambda>l. TrimSpace l \<noteq> [])
        (drop (Suc (scan (Split ''Members:\<newline>10.0.0.1\<newline>'') 0 0))
          (Split ''Members:\<newline>10.0.0.1\<newline>'')), Some (errorString ''Kernel error''))"
    by (rule List_eq)
  then show ?thesis
    by (simp add: trim_defs)
qed

text \<open>
  Claim C6. \<^verbatim>\<open>List\<close> always returns the members it parsed from the standard output
  together with the error of the run, whatever that error is; a sequence that is not
  empty can come with an error. When no line follows the marker position, the sequence is
  empty and the error is the one of the run; in particular, when the marker line
  \<^verbatim>\<open>Members:\<close> is the last line of the output (with or without its newline) and the
  process ended with status zero, \<^verbatim>\<open>List\<close> returns the empty sequence and no
  error. As in C4 the marker line is a whole line and the first that is \<^verbatim>\<open>Members:\<close>
  once trimmed.
\<close>

theorem List_members_and_error:
  "(\<forall>out err. fst (run sys [''list'', name] st) = (out, err) \<longrightarrow>
      fst (List sys name st) =
        Inr (collect (drop (scan (Split out) 0 0 + 1) (Split out)) [], err)) \<and>
   (\<exists>sys' name' st' members e.
      fst (List sys' name' st') = Inr (members, Some e) \<and> members \<noteq> []) \<and>
   (\<forall>out err. fst (run sys [''list'', name] st) = (out, err) \<and>
      length (Split out) \<le> scan (Split out) 0 0 + 1 \<longrightarrow>
      fst (List sys name st) = Inr ([], err)) \<and>
   (\<forall>hdr m tail errtxt.
      sys (last (invocations (snd (List sys name st)))) = Exited 0 (hdr @ m @ tail) errtxt \<and>
      (hdr = [] \<or> last hdr = CHR 0x0A) \<and>
      (\<forall>l\<in>set (Split hdr). TrimSpace l \<noteq> ''Members:'') \<and>
      CHR 0x0A \<notin> set m \<and> TrimSpace m = ''Members:'' \<and>
      (tail = [] \<or> tail = [CHR 0x0A]) \<longrightarrow>
      fst (List sys name st) = Inr ([], None))"
proof -
  have a: "fst (List sys name st) =
        Inr (collect (drop (scan (Split out) 0 0 + 1) (Split out)) [], err)"
    if "fst (run sys [''list'', name] st) = (out, err)" for out err
    using List_eq [OF that] by (simp add: collect_filter)
  have b: "fst (List sys name st) = Inr ([], err)"
    if "fst (run sys [''list'', name] st) = (out, err)"
      and "length (Split out) \<le> scan (Split out) 0 0 + 1" for out err
    using a [OF that(1)] that(2) by simp
  have c: "fst (List sys name st) = Inr ([], None)"
    if out: "sys (last (invocations (snd (List sys name st)))) = Exited 0 (hdr @ m @ tail) errtxt"
      and hdr: "hdr = [] \<or> last hdr = CHR 0x0A"
      and nomark: "\<forall>l\<in>set (Split hdr). TrimSpace l \<noteq> ''Members:''"
      and line: "CHR 0x0A \<notin> set m" and mark: "TrimSpace m = ''Members:''"
      and tail: "tail = [] \<or> tail = [CHR 0x0A]"
    for hdr m tail errtxt
  proof -
    obtain ms where "List sys name st =
        (Inr (ms, snd (fst (run sys [''list'', name] st))), snd (run sys [''list'', name] st))"
      using List_run by blast
    then have "last (invocations (snd (List sys name st))) = command st [''list'', name]"
      by (simp add: run_eq)
    with out have r: "fst (run sys [''list'', name] st) = (hdr @ m @ tail, None)"
      by (simp add: run_eq)
    obtain pre where
      l1: "Split (hdr @ m @ CHR 0x0A # []) = pre @ m # Split []"
      and l2: "Split (hdr @ m) = pre @ [m]"
      and pre: "\<forall>l\<in>set pre. TrimSpace l \<noteq> ''Members:''"
      using marker_lines [OF hdr nomark line] by blast
    have start: "scan (pre @ m # rest) 0 0 = length pre" for rest
      using scan_first_marker [OF pre mark] by simp
    have blank: "TrimSpace [] = []"
      by (simp add: TrimSpace_def TrimRight_def)
    from tail show ?thesis
    proof
      assume "tail = []"
      with l2 have "Split (hdr @ m @ tail) = pre @ m # []" by simp
      with a [OF r] show ?thesis
        by (simp add: start)
    next
      assume "tail = [CHR 0x0A]"
      with l1 have "Split (hdr @ m @ tail) = pre @ m # [[]]" by simp
      with a [OF r] show ?thesis
        by (simp add: start blank)
    qed
  qed
  have d: "\<exists>sys' name' st' members e.
      fst (List sys' name' st') = Inr (members, Some e) \<and> members \<noteq> []"
    using List_partial_example by blast
  from a b c d show ?thesis by blast
qed

theorem List_members_and_error_witness:
  "fst (run (\<lambda>cmd. Exited 1 ''Members:\<newline>10.0.0.1\<newline>'' ''Kernel error'') [''list'', ''s''] fresh) =
     (''Members:\<newline>10.0.0.1\<newline>'', Some (errorString ''Kernel error'')) \<and>
   fst (List (\<lambda>cmd. Exited 1 ''Members:\<newline>10.0.0.1\<newline>'' ''Kernel error'') ''s'' fresh) =
     Inr ([''10.0.0.1''], Some (errorString ''Kernel error'')) \<and>
   length (Split ''Members:'') \<le> scan (Split ''Members:'') 0 0 + 1 \<and>
   fst (List (\<lambda>cmd. Exited 1 ''Members:'' ''Kernel error'') ''s'' fresh) =
     Inr ([], Some (errorString ''Kernel error'')) \<and>
   fst (List (\<lambda>cmd. Exited 0 (''Name: s\<newline>'' @ ''Members:'' @ ''\<newline>'') []) ''s'' fresh) =
     Inr ([], None)"
proof -
  let ?early = "\<lambda>cmd::Cmd. Exited 1 ''Members:'' ''Kernel error''"
  have k1: "fst (run ?early [''list'', ''s''] fresh) =
      (''Members:'', Some (errorString ''Kernel error''))"
    by (simp add: run_eq)
  have k2: "length (Split ''Members:'') \<le> scan (Split ''Members:'') 0 0 + 1"
    by (simp add: trim_defs)
  have early: "fst (List ?early ''s'' fresh) = Inr ([], Some (errorString ''Kernel error''))"
    using List_members_and_error [of ?early "''s''" "fresh"] k1 k2 by blast
  let ?sys = "\<lambda>cmd::Cmd. Exited 1 ''Members:\<newline>10.0.0.1\<newline>'' ''Kernel error''"
  let ?quiet = "\<lambda>cmd::Cmd. Exited 0 (''Name: s\<newline>'' @ ''Members:'' @ ''\<newline>'') []"
  have h: "fst (run ?sys [''list'', ''s''] fresh) =
      (''Members:\<newline>10.0.0.1\<newline>'', Some (errorString ''Kernel error''))"
    by (simp add: run_eq)
  have "fst (List ?sys ''s'' fresh) =
      Inr (collect (drop (scan (Split ''Members:\<newline>10.0.0.1\<newline>'') 0 0 + 1)
            (Split ''Members:\<newline>10.0.0.1\<newline>'')) [], Some (errorString ''Kernel error''))"
    using List_members_and_error [of ?sys "''s''" "fresh"] h by blast
  also have "collect (drop (scan (Split ''Members:\<newline>10.0.0.1\<newline>'') 0 0 + 1)
            (Split ''Members:\<newline>10.0.0.1\<newline>'')) [] = [''10.0.0.1'']"
    by (simp add: trim_defs)
  finally have first: "fst (List ?sys ''s'' fresh) = Inr ([''10.0.0.1''], Some (errorString ''Kernel error''))" .
  have g1: "?quiet (last (invocations (snd (List ?quiet ''s'' fresh)))) =
      Exited 0 (''Name: s\<newline>'' @ ''Members:'' @ ''\<newline>'') []"
    by simp
  have g2: "''Name: s\<newline>'' = [] \<or> last ''Name: s\<newline>'' = CHR 0x0A" by simp
  have g3: "\<forall>l\<in>set (Split ''Name: s\<newline>''). TrimSpace l \<noteq> ''Members:''"
    by (simp add: trim_defs)
  have g4: "CHR 0x0A \<notin> set ''Members:''" by simp
  have g5: "TrimSpace ''Members:'' = ''Members:''"
    by (simp add: trim_defs)
  have g6: "''\<newline>'' = [] \<or> ''\<newline>'' = [CHR 0x0A]" by simp
  have second: "fst (List ?quiet ''s'' fresh) = Inr ([], None)"
    using List_members_and_error [of ?quiet "''s''" "fresh"] g1 g2 g3 g4 g5 g6 by blast
  from h first k2 early second show ?thesis by simp
qed

text \<open>
  Claim C8. Whatever the captured standard output is, the members \<^verbatim>\<open>List\<close> returns
  are lines of it, unchanged and in their order (a subsequence of the lines), and none of
  them is empty or made of white space only.
\<close>

theorem List_members_not_blank:
  assumes "fst (run sys [''list'', name] st) = (out, err)"
  shows "\<exists>members. fst (List sys name st) = Inr (members, err) \<and>
           subseq members (Split out) \<and>
           (\<forall>m\<in>set members.
              m \<in> set (Split out) \<and> m \<noteq> [] \<and> \<not> whitespace_only m \<and> TrimSpace m \<noteq> [])"
proof -
  let ?ms = "filter (\<lambda>l. TrimSpace l \<noteq> []) (drop (Suc (scan (Split out) 0 0)) (Split out))"
  have res: "fst (List sys name st) = Inr (?ms, err)"
    using assms by (rule List_eq)
  have "subseq ?ms (drop (Suc (scan (Split out) 0 0)) (Split out))"
    by (rule subseq_filter_left)
  moreover have "subseq (drop (Suc (scan (Split out) 0 0)) (Split out)) (Split out)"
    by (metis append_take_drop_id list_emb_append2 subseq_order.order_refl)
  ultimately have sub: "subseq ?ms (Split out)"
    by (rule subseq_order.order_trans)
  have each: "\<forall>m\<in>set ?ms.
      m \<in> set (Split out) \<and> m \<noteq> [] \<and> \<not> whitespace_only m \<and> TrimSpace m \<noteq> []"
  proof
    fix m assume "m \<in> set ?ms"
    then have m: "m \<in> set (drop (Suc (scan (Split out) 0 0)) (Split out))"
      and t: "TrimSpace m \<noteq> []"
      by simp_all
    from m have "m \<in> set (Split out)" by (rule in_set_dropD)
    moreover from t have "m \<noteq> []"
      by (auto simp add: TrimSpace_def TrimRight_def)
    moreover from t have "\<not> whitespace_only m"
      using TrimSpace_whitespace by blast
    ultimately show "m \<in> set (Split out) \<and> m \<noteq> [] \<and> \<not> whitespace_only m \<and> TrimSpace m \<noteq> []"
      using t by simp
  qed
  from res sub each show ?thesis by blast
qed

text \<open>
  An output with a blank line, a line of a tab and spaces, and a line of a no-break
  space (U+00A0) among the members; the member that has a space at its end keeps it.
\<close>

theorem List_members_not_blank_witness:
  "fst (run (\<lambda>cmd. Exited 0
          (''Members:\<newline>10.0.0.1 \<newline>\<newline>'' @ [CHR 0x09] @ ''  \<newline>'' @ [CHR 0xC2, CHR 0xA0] @ ''\<newline>10.0.0.2\<newline>'') [])
        [''list'', ''s''] fresh) =
     (''Members:\<newline>10.0.0.1 \<newline>\<newline>'' @ [CHR 0x09] @ ''  \<newline>'' @ [CHR 0xC2, CHR 0xA0] @ ''\<newline>10.0.0.2\<newline>'', None) \<and>
   fst (List (\<lambda>cmd. Exited 0
          (''Members:\<newline>10.0.0.1 \<newline>\<newline>'' @ [CHR 0x09] @ ''  \<newline>'' @ [CHR 0xC2, CHR 0xA0] @ ''\<newline>10.0.0.2\<newline>'') [])
        ''s'' fresh) =
     Inr ([''10.0.0.1 '', ''10.0.0.2''], None) \<and>
   list_all (\<lambda>m. m \<noteq> [] \<and> \<not> whitespace_only m \<and> TrimSpace m \<noteq> []) [''10.0.0.1 '', ''10.0.0.2'']"
proof -
  let ?out = "''Members:\<newline>10.0.0.1 \<newline>\<newline>'' @ [CHR 0x09] @ ''  \<newline>'' @ [CHR 0xC2, CHR 0xA0] @ ''\<newline>10.0.0.2\<newline>''"
  let ?sys = "\<lambda>cmd::Cmd. Exited 0 ?out []"
  have h: "fst (run ?sys [''list'', ''s''] fresh) = (?out, None)"
    by (simp add: run_eq)
  obtain members where res: "fst (List ?sys ''s'' fresh) = Inr (members, None)"
    and each: "\<forall>m\<in>set members.
      m \<in> set (Split ?out) \<and> m \<noteq> [] \<and> \<not> whitespace_only m \<and> TrimSpace m \<noteq> []"
    using List_members_not_blank [OF h] by blast
  have "fst (List ?sys ''s'' fresh) =
      Inr (filter (\<lambda>l. TrimSpace l \<noteq> []) (drop (Suc (scan (Split ?out) 0 0)) (Split ?out)), None)"
    using h by (rule List_eq)
  also have "filter (\<lambda>l. TrimSpace l \<noteq> []) (drop (Suc (scan (Split ?out) 0 0)) (Split ?out)) =
      [''10.0.0.1 '', ''10.0.0.2'']"
    by (simp add: trim_defs)
  finally have eval: "fst (List ?sys ''s'' fresh) = Inr ([''10.0.0.1 '', ''10.0.0.2''], None)" .
  with res have "members = [''10.0.0.1 '', ''10.0.0.2'']" by simp
  with each have "list_all (\<lambda>m. m \<noteq> [] \<and> \<not> whitespace_only m \<and> TrimSpace m \<noteq> [])
      [''10.0.0.1 '', ''10.0.0.2'']"
    by (simp only: list_all_iff) blast
  with h eval show ?thesis by (simp only: simp_thms)
qed

subsection \<open>Construction\<close>

text \<open>
  Claim C7. \<^verbatim>\<open>New\<close> looks the binary \<^verbatim>\<open>ipset\<close> up on the search path. When the
  lookup gives no error, \<^verbatim>\<open>New\<close> returns a handle with the path the lookup resolved
  and an empty list of options, and no error. When the lookup gives an error, \<^verbatim>\<open>New\<close>
  returns that error and no handle. So the error of the lookup is the only failure, and
  a handle is returned exactly when there is no error. The path of the handle is the one
  the lookup resolved, unchanged: it is absolute when the lookup keeps its promise that a
  path it resolves without an error is absolute.
\<close>

theorem New_result:
  "(\<forall>binPath. LookPath ''ipset'' = (binPath, None) \<longrightarrow>
      New LookPath = (Some \<lparr>Path = binPath, Options = []\<rparr>, None)) \<and>
   (\<forall>binPath err. LookPath ''ipset'' = (binPath, Some err) \<longrightarrow>
      New LookPath = (None, Some err)) \<and>
   snd (New LookPath) = snd (LookPath ''ipset'') \<and>
   (fst (New LookPath) = None) = (snd (New LookPath) \<noteq> None) \<and>
   ((\<forall>binPath. LookPath ''ipset'' = (binPath, None) \<longrightarrow> IsAbs binPath) \<longrightarrow>
    (\<forall>ipset. fst (New LookPath) = Some ipset \<longrightarrow> IsAbs (Path ipset) \<and> Options ipset = []))"
proof (cases "LookPath ''ipset''")
  case (Pair binPath result)
  then show ?thesis
    by (cases result) (auto simp add: New_def)
qed

theorem New_result_witness:
  "New (\<lambda>file. (''/usr/sbin/'' @ file, None)) =
     (Some \<lparr>Path = ''/usr/sbin/ipset'', Options = []\<rparr>, None) \<and>
   IsAbs ''/usr/sbin/ipset'' \<and>
   New (\<lambda>file. ([], Some (LookPathError ''executable file not found in $PATH''))) =
     (None, Some (LookPathError ''executable file not found in $PATH''))"
proof -
  have found: "New (\<lambda>file. (''/usr/sbin/'' @ file, None)) =
      (Some \<lparr>Path = ''/usr/sbin/ipset'', Options = []\<rparr>, None)"
    using New_result [of "\<lambda>file. (''/usr/sbin/'' @ file, None)"] by simp
  have "\<forall>binPath. (''/usr/sbin/'' @ ''ipset'', None) = (binPath, None) \<longrightarrow> IsAbs binPath"
    by (simp add: IsAbs_def)
  then have "\<forall>ipset. fst (New (\<lambda>file. (''/usr/sbin/'' @ file, None))) = Some ipset \<longrightarrow>
      IsAbs (Path ipset) \<and> Options ipset = []"
    using New_result [of "\<lambda>file. (''/usr/sbin/'' @ file, None)"] by blast
  with found have absolute: "IsAbs ''/usr/sbin/ipset''" by simp
  have missing:
    "New (\<lambda>file. ([], Some (LookPathError ''executable file not found in $PATH''))) =
      (None, Some (LookPathError ''executable file not found in $PATH''))"
    using New_result [of "\<lambda>file. ([], Some (LookPathError ''executable file not found in $PATH''))"]
    by simp
  from found absolute missing show ?thesis by simp
qed

subsection \<open>The handle\<close>

text \<open>
  Claim C9. No operation changes the handle: the path and the options are the same after
  the call as before it. And the options of the handle are in no argument vector: with
  any other list of options in the handle, every operation hands the same commands to the
  system and returns the same result.
\<close>

theorem handle_unchanged:
  "handle (snd (invoke sys c st)) = handle st \<and>
   handle (snd (List sys name st)) = handle st \<and>
   invocations (snd (invoke sys c (st\<lparr>handle := (handle st)\<lparr>Options := opts\<rparr>\<rparr>))) =
     invocations (snd (invoke sys c st)) \<and>
   fst (invoke sys c (st\<lparr>handle := (handle st)\<lparr>Options := opts\<rparr>\<rparr>)) = fst (invoke sys c st) \<and>
   invocations (snd (List sys name (st\<lparr>handle := (handle st)\<lparr>Options := opts\<rparr>\<rparr>))) =
     invocations (snd (List sys name st)) \<and>
   fst (List sys name (st\<lparr>handle := (handle st)\<lparr>Options := opts\<rparr>\<rparr>)) = fst (List sys name st)"
proof -
  have cmd: "command (st\<lparr>handle := (handle st)\<lparr>Options := opts\<rparr>\<rparr>) args = command st args"
    for args
    by (simp add: command_def)
  have "handle (snd (invoke sys c st)) = handle st"
    using invoke_run [of sys c st] by (auto simp add: run_eq)
  moreover have "handle (snd (List sys name st)) = handle st"
    using List_run [of sys name st] by (auto simp add: run_eq)
  moreover have
    "invocations (snd (invoke sys c (st\<lparr>handle := (handle st)\<lparr>Options := opts\<rparr>\<rparr>))) =
     invocations (snd (invoke sys c st))"
    by (cases c; simp add: op_defs run_eq cmd case_prod_beta)
  moreover have
    "fst (invoke sys c (st\<lparr>handle := (handle st)\<lparr>Options := opts\<rparr>\<rparr>)) = fst (invoke sys c st)"
    by (cases c; simp add: op_defs run_eq cmd case_prod_beta)
  moreover have
    "invocations (snd (List sys name (st\<lparr>handle := (handle st)\<lparr>Options := opts\<rparr>\<rparr>))) =
     invocations (snd (List sys name st))"
    by (simp add: List_def Let_def run_eq cmd slice_from_def case_prod_beta)
  moreover have
    "fst (List sys name (st\<lparr>handle := (handle st)\<lparr>Options := opts\<rparr>\<rparr>)) = fst (List sys name st)"
    by (simp add: List_def Let_def run_eq cmd slice_from_def case_prod_beta)
  ultimately show ?thesis by simp
qed

theorem handle_unchanged_witness:
  "handle (snd (invoke (\<lambda>cmd. Exited 0 [] []) (FlushCall ''s'')
      \<lparr>handle = \<lparr>Path = ''/usr/sbin/ipset'', Options = [''-quiet'']\<rparr>, invocations = []\<rparr>)) =
     \<lparr>Path = ''/usr/sbin/ipset'', Options = [''-quiet'']\<rparr> \<and>
   invocations (snd (invoke (\<lambda>cmd. Exited 0 [] []) (FlushCall ''s'')
      \<lparr>handle = \<lparr>Path = ''/usr/sbin/ipset'', Options = [''-quiet'']\<rparr>, invocations = []\<rparr>)) =
     [\<lparr>cmdPath = ''/usr/sbin/ipset'', cmdArgs = [''/usr/sbin/ipset'', ''flush'', ''s'']\<rparr>]"
proof -
  have "invocations (snd (invoke (\<lambda>cmd. Exited 0 [] []) (FlushCall ''s'') fresh)) =
      [\<lparr>cmdPath = ''/usr/sbin/ipset'', cmdArgs = [''/usr/sbin/ipset'', ''flush'', ''s'']\<rparr>]"
    by (simp add: Flush_def run_eq command_def)
  then show ?thesis
    using handle_unchanged [of "\<lambda>cmd. Exited 0 [] []" "FlushCall ''s''"
        "\<lparr>handle = \<lparr>Path = ''/usr/sbin/ipset'', Options = [''-quiet'']\<rparr>, invocations = []\<rparr>" "''s''" "[]"]
    by simp
qed

subsection \<open>A process that does not start\<close>

text \<open>
  Claim C10. When the process cannot be started, every operation returns the error whose
  message is the empty string: the error is made of the captured standard error alone,
  and nothing was written to it. What the start failed on is lost, and so is the exit
  status of a process that failed: two systems that differ only in the detail of the
  start failure, or only in the status (not zero) of the exit, give the same command the
  same result.
\<close>

theorem start_failure_detail_lost:
  "(\<forall>detail. sys (last (invocations (snd (invoke sys c st)))) = NotStarted detail \<longrightarrow>
      fst (invoke sys c st) = Some (errorString [])) \<and>
   (\<forall>detail. sys (last (invocations (snd (List sys name st)))) = NotStarted detail \<longrightarrow>
      fst (List sys name st) = Inr ([], Some (errorString []))) \<and>
   last (invocations (snd (invoke sys' c st))) = last (invocations (snd (invoke sys c st))) \<and>
   (\<forall>detail detail'.
      sys (last (invocations (snd (invoke sys c st)))) = NotStarted detail \<and>
      sys' (last (invocations (snd (invoke sys c st)))) = NotStarted detail' \<longrightarrow>
      invoke sys' c st = invoke sys c st) \<and>
   (\<forall>code code' out err.
      sys (last (invocations (snd (invoke sys c st)))) = Exited code out err \<and>
      sys' (last (invocations (snd (invoke sys c st)))) = Exited code' out err \<and>
      code \<noteq> 0 \<and> code' \<noteq> 0 \<longrightarrow>
      invoke sys' c st = invoke sys c st)"
proof -
  have a: "\<forall>detail. sys (last (invocations (snd (invoke sys c st)))) = NotStarted detail \<longrightarrow>
      fst (invoke sys c st) = Some (errorString [])"
    using invoke_run [of sys c st] by (auto simp add: run_error [of sys])
  have b: "\<forall>detail. sys (last (invocations (snd (List sys name st)))) = NotStarted detail \<longrightarrow>
      fst (List sys name st) = Inr ([], Some (errorString []))"
    by (simp add: List_def Let_def run_eq slice_from_def case_prod_beta split: outcome.split)
  have c: "last (invocations (snd (invoke sys' c st))) = last (invocations (snd (invoke sys c st)))"
    by (cases c; simp add: op_defs run_eq case_prod_beta)
  have d: "\<forall>detail detail'.
      sys (last (invocations (snd (invoke sys c st)))) = NotStarted detail \<and>
      sys' (last (invocations (snd (invoke sys c st)))) = NotStarted detail' \<longrightarrow>
      invoke sys' c st = invoke sys c st"
    by (cases c; simp add: op_defs run_eq case_prod_beta split: outcome.split)
  have e: "\<forall>code code' out err.
      sys (last (invocations (snd (invoke sys c st)))) = Exited code out err \<and>
      sys' (last (invocations (snd (invoke sys c st)))) = Exited code' out err \<and>
      code \<noteq> 0 \<and> code' \<noteq> 0 \<longrightarrow>
      invoke sys' c st = invoke sys c st"
    by (cases c; simp add: op_defs run_eq case_prod_beta split: outcome.split)
  from a b c d e show ?thesis by blast
qed

theorem start_failure_detail_lost_witness:
  "fst (invoke (\<lambda>cmd. NotStarted ''fork/exec /usr/sbin/ipset: permission denied'')
          (TestCall ''s'' ''10.0.0.1'' []) fresh) = Some (errorString []) \<and>
   fst (List (\<lambda>cmd. NotStarted ''fork/exec /usr/sbin/ipset: permission denied'') ''s'' fresh) =
     Inr ([], Some (errorString [])) \<and>
   invoke (\<lambda>cmd. NotStarted ''fork/exec /usr/sbin/ipset: no such file or directory'')
       (TestCall ''s'' ''10.0.0.1'' []) fresh =
     invoke (\<lambda>cmd. NotStarted ''fork/exec /usr/sbin/ipset: permission denied'')
       (TestCall ''s'' ''10.0.0.1'' []) fresh \<and>
   invoke (\<lambda>cmd. Exited 2 [] ''Kernel error'') (TestCall ''s'' ''10.0.0.1'' []) fresh =
     invoke (\<lambda>cmd. Exited 1 [] ''Kernel error'') (TestCall ''s'' ''10.0.0.1'' []) fresh"
  using start_failure_detail_lost
      [of "\<lambda>cmd. NotStarted ''fork/exec /usr/sbin/ipset: permission denied''"
          "TestCall ''s'' ''10.0.0.1'' []" "fresh" "''s''"
          "\<lambda>cmd. NotStarted ''fork/exec /usr/sbin/ipset: no such file or directory''"]
    start_failure_detail_lost
      [of "\<lambda>cmd. Exited 1 [] ''Kernel error''"
          "TestCall ''s'' ''10.0.0.1'' []" "fresh" "''s''"
          "\<lambda>cmd. Exited 2 [] ''Kernel error''"]
  by simp

end
